theory Spec2Isabelle
  imports Complex_Main "HOL-Library.Word"
begin

section \<open>Exposure-correcting frame pipeline (main.py)\<close>

text \<open>
  The program is one function, \<open>analizza_e_modifica_video\<close>: it opens a video, reads it
  frame by frame, measures the mean luminance of every \<open>frame_interval\<close>-th frame, rescales
  the frame when the luminance is beyond a threshold, and writes every frame to a new video.

  Conventions of the embedding:
  \<^item> a pixel is a triple of 8-bit channels in OpenCV's order (B, G, R); a frame is the list
    of its pixels in row-major order (the claims do not depend on the row length);
  \<^item> the frame rate and \<open>fps_analisi\<close> are Python numbers: a float is a finite double (the
    rational it denotes), an infinity or NaN, and \<open>fps_analisi\<close> may also be an int; the
    division of line 46 is the IEEE double division, rounded to the nearest double;
  \<^item> the thresholds, the correction factor and the measured mean are the rationals their
    doubles denote, and the arithmetic on them (the gain of line 78, the operations of cv2
    and numpy) is taken exact;
  \<^item> the files the capture can open and the paths the writer can create are the
    \<open>world\<close> the function runs in;
  \<^item> a raised exception is \<open>Some e\<close> in the first component of the result, a normal return
    (\<open>return\<close> or falling off the end) is \<open>None\<close>; the second component is the state of
    the handles, of the written frames and of the printed lines when control leaves the function.
\<close>

subsection \<open>Data\<close>

type_synonym pixel = "8 word \<times> 8 word \<times> 8 word"

type_synonym frame = "pixel list"


datatype py_float = Finite rat | PInf | NInf | NaN

datatype py_num = PyInt int | PyFloat py_float

record video =
  v_fps :: py_float
  v_width :: int
  v_height :: int
  v_frames :: "frame list"

record world =
  readable :: "string \<rightharpoonup> video"
  creatable :: "string \<Rightarrow> bool"

datatype py_error = ZeroDivisionError | OverflowError | ValueError | CvError

datatype message =
    ErroreInput string
  | ErroreOutput string
  | Inizio string
  | Salvataggio string
  | FrameRate py_float
  | Sottoesposto nat rat
  | Sovraesposto nat rat
  | Completato string

text \<open>
  \<open>cap_held\<close>: the VideoCapture holds the input file (opened, \<open>release\<close> not called).
  \<open>out_held\<close>: the VideoWriter holds the output file. \<open>out_created\<close>: the output file has
  been created, with this frame rate and size. \<open>written\<close>: the frames passed to
  \<open>out.write\<close>, oldest first. \<open>printed\<close>: the lines printed, oldest first.
  \<open>analizzati\<close>: the values of \<open>frame_count\<close> at which lines 60-62 computed a mean
  luminance, oldest first.
\<close>

record run_state =
  cap_held :: bool
  out_held :: bool
  out_created :: "(py_float \<times> int \<times> int) option"
  written :: "frame list"
  printed :: "message list"
  analizzati :: "nat list"

definition stato_iniziale :: run_state where
  "stato_iniziale =
     \<lparr>cap_held = False, out_held = False, out_created = None, written = [], printed = [],
      analizzati = []\<rparr>"

subsection \<open>Python's float division and \<open>int\<close>\<close>

text \<open>
  \<open>round_double x\<close> is the double nearest to the rational \<open>x\<close>, a tie going to the even
  significand: with \<open>2 ^ e \<le> |x| < 2 ^ (e + 1)\<close> the doubles around \<open>x\<close> are the multiples
  of \<open>2 ^ (e - 52)\<close>, or of \<open>2 ^ - 1074\<close> in the subnormal range, and a result of
  \<open>2 ^ 1024\<close> or more is an infinity. The two zeros are not told apart: the function never
  divides by a quotient.
\<close>

definition round_half_even :: "rat \<Rightarrow> int" where
  "round_half_even x =
     (let n = \<lfloor>x\<rfloor>; d = x - of_int n
      in if d < 1 / 2 then n
         else if 1 / 2 < d then n + 1
         else if even n then n else n + 1)"

function bit_length :: "int \<Rightarrow> int" where
  "bit_length n = (if n \<le> 0 then 0 else 1 + bit_length (n div 2))"
  by auto
termination
  by (relation "measure nat") auto

text \<open>For \<open>x > 0\<close>, the \<open>e\<close> with \<open>2 ^ e \<le> x < 2 ^ (e + 1)\<close>.\<close>

definition esponente :: "rat \<Rightarrow> int" where
  "esponente x =
     (case quotient_of x of (n, d) \<Rightarrow>
        (let e0 = bit_length n - bit_length d
         in if power_int 2 e0 \<le> x then e0 else e0 - 1))"

definition round_double_pos :: "rat \<Rightarrow> rat option" where
  "round_double_pos x =
     (let q = max (esponente x - 52) (- 1074);
          y = of_int (round_half_even (x / power_int 2 q)) * power_int 2 q
      in if y \<noteq> 0 \<and> 1024 \<le> esponente y then None else Some y)"

definition round_double :: "rat \<Rightarrow> py_float" where
  "round_double x =
     (if x = 0 then Finite 0
      else if 0 < x then (case round_double_pos x of None \<Rightarrow> PInf | Some y \<Rightarrow> Finite y)
      else (case round_double_pos (- x) of None \<Rightarrow> NInf | Some y \<Rightarrow> Finite (- y)))"

text \<open>The quotient of two floats, the divisor not zero.\<close>

fun float_div :: "py_float \<Rightarrow> py_float \<Rightarrow> py_float" where
  "float_div NaN b = NaN"
| "float_div a NaN = NaN"
| "float_div (Finite a) (Finite b) = round_double (a / b)"
| "float_div (Finite a) b = Finite 0"
| "float_div PInf (Finite b) = (if 0 < b then PInf else NInf)"
| "float_div NInf (Finite b) = (if 0 < b then NInf else PInf)"
| "float_div a b = NaN"

text \<open>
  \<open>float / x\<close>: an int \<open>x\<close> is first converted to the nearest double, which raises
  OverflowError when there is none; a zero divisor raises ZeroDivisionError.
\<close>

definition float_of_num :: "py_num \<Rightarrow> py_error + py_float" where
  "float_of_num x =
     (case x of
        PyFloat a \<Rightarrow> Inr a
      | PyInt n \<Rightarrow>
          (case round_double (of_int n) of
             Finite a \<Rightarrow> Inr (Finite a)
           | _ \<Rightarrow> Inl OverflowError))"

definition py_truediv :: "py_float \<Rightarrow> py_num \<Rightarrow> py_error + py_float" where
  "py_truediv a x =
     (case float_of_num x of
        Inl e \<Rightarrow> Inl e
      | Inr b \<Rightarrow> if b = Finite 0 then Inl ZeroDivisionError else Inr (float_div a b))"

text \<open>
  \<open>int(x)\<close> on a float: truncation towards zero, OverflowError on an infinity, ValueError
  on NaN.
\<close>

definition py_int :: "py_float \<Rightarrow> py_error + int" where
  "py_int x =
     (case x of
        Finite a \<Rightarrow> Inr (if 0 \<le> a then \<lfloor>a\<rfloor> else \<lceil>a\<rceil>)
      | NaN \<Rightarrow> Inl ValueError
      | _ \<Rightarrow> Inl OverflowError)"

subsection \<open>The operations of cv2 and numpy that the function calls\<close>

text \<open>
  Modelled from the spec: the Media I/O Facility (cv2, numpy) is not part of the repository.
  The spec asks it for a rounding, saturating per-channel affine transform, a BGR to grey
  reduction and a mean. \<open>cvRound\<close> rounds to the nearest integer, a tie to the even one
  (as Python's \<open>round\<close> and OpenCV's \<open>cvRound\<close> do); \<open>saturate_cast_uchar\<close> clamps to
  \<open>[0, 255]\<close>; \<open>convertScaleAbs\<close> computes \<open>saturate (round |alpha * src + beta|)\<close> on every
  channel (the absolute value is the one in the operation's name; it is the identity for the
  non-negative gains of the contract).
\<close>

definition cvRound :: "rat \<Rightarrow> int" where
  "cvRound x =
     (let n = \<lfloor>x\<rfloor>; d = x - of_int n
      in if d < 1 / 2 then n
         else if 1 / 2 < d then n + 1
         else if even n then n else n + 1)"

definition saturate_cast_uchar :: "int \<Rightarrow> 8 word" where
  "saturate_cast_uchar v = (if v < 0 then 0 else if 255 < v then 255 else word_of_int v)"

definition scala_canale :: "rat \<Rightarrow> rat \<Rightarrow> 8 word \<Rightarrow> 8 word" where
  "scala_canale alpha beta c = saturate_cast_uchar (cvRound \<bar>of_nat (unat c) * alpha + beta\<bar>)"

definition convertScaleAbs :: "frame \<Rightarrow> rat \<Rightarrow> rat \<Rightarrow> frame" where
  "convertScaleAbs src alpha beta =
     map (\<lambda>(b, g, r). (scala_canale alpha beta b, scala_canale alpha beta g,
                        scala_canale alpha beta r)) src"

text \<open>
  Modelled from the spec: \<open>cv2.cvtColor(frame, COLOR_BGR2GRAY)\<close>, "a standard RGB to
  luminance reduction", with the standard weights 0.299 R + 0.587 G + 0.114 B, rounded to
  8 bits. OpenCV refuses an empty image with an error.
\<close>

definition grigio :: "pixel \<Rightarrow> 8 word" where
  "grigio p =
     (case p of (b, g, r) \<Rightarrow>
        saturate_cast_uchar
          (cvRound (114 / 1000 * of_nat (unat b) + 587 / 1000 * of_nat (unat g)
                    + 299 / 1000 * of_nat (unat r))))"

definition cvtColor_BGR2GRAY :: "frame \<Rightarrow> py_error + 8 word list" where
  "cvtColor_BGR2GRAY src = (if src = [] then Inl CvError else Inr (map grigio src))"

text \<open>
  Modelled from the spec: \<open>np.mean\<close>, "a scalar mean-reduction over a 2-D pixel grid". It is
  only ever applied to the result of \<open>cvtColor_BGR2GRAY\<close>, which is never empty.
\<close>

definition np_mean :: "8 word list \<Rightarrow> rat" where
  "np_mean gs = of_nat (sum_list (map unat gs)) / of_nat (length gs)"

text \<open>
  The spec's scaling formula, \<open>output = clamp(round(gain * input), 0, 255)\<close>, written as the
  spec has it, to be compared with what the code computes.
\<close>

definition spec_clamp :: "int \<Rightarrow> int" where
  "spec_clamp v = max 0 (min 255 v)"

definition spec_scala :: "rat \<Rightarrow> 8 word \<Rightarrow> 8 word" where
  "spec_scala gain c = word_of_int (spec_clamp (cvRound (gain * of_nat (unat c))))"


subsection \<open>The function\<close>

text \<open>
  Lines 46-48: \<open>frame_interval = int(fps / fps_analisi)\<close>, raised to 1 when smaller.
\<close>

definition frame_interval :: "py_float \<Rightarrow> py_num \<Rightarrow> py_error + int" where
  "frame_interval fps fps_analisi =
     (case py_truediv fps fps_analisi of
        Inl e \<Rightarrow> Inl e
      | Inr q \<Rightarrow>
          (case py_int q of
             Inl e \<Rightarrow> Inl e
           | Inr k \<Rightarrow> Inr (if k < 1 then 1 else k)))"

text \<open>Line 58, the test that selects the frames to analyse.\<close>

definition campionato :: "int \<Rightarrow> nat \<Rightarrow> bool" where
  "campionato intervallo frame_count = (int frame_count mod intervallo = 0)"

text \<open>
  Lines 57-82, the body of the loop before the write: whether the mean luminance was
  computed, the lines printed, and the frame to write or the exception raised. The line of
  an over-exposed frame is printed before \<open>1 / fattore_correzione\<close> is evaluated.
\<close>

definition analizza_frame ::
  "rat \<Rightarrow> rat \<Rightarrow> rat \<Rightarrow> int \<Rightarrow> nat \<Rightarrow> frame \<Rightarrow>
     (bool \<times> message list) \<times> (py_error + frame)" where
  "analizza_frame soglia_sottoesposizione soglia_sovraesposizione fattore_correzione
       intervallo frame_count fr =
     (if campionato intervallo frame_count then
        (case cvtColor_BGR2GRAY fr of
           Inl e \<Rightarrow> ((False, []), Inl e)
         | Inr gray_frame \<Rightarrow>
             (let luminosita_media = np_mean gray_frame
              in if luminosita_media < soglia_sottoesposizione then
                   ((True, [Sottoesposto frame_count luminosita_media]),
                    Inr (convertScaleAbs fr fattore_correzione 0))
                 else if luminosita_media > soglia_sovraesposizione then
                   ((True, [Sovraesposto frame_count luminosita_media]),
                    if fattore_correzione = 0 then Inl ZeroDivisionError
                    else Inr (convertScaleAbs fr (1 / fattore_correzione) 0))
                 else ((True, []), Inr fr)))
      else ((False, []), Inr fr))"

text \<open>
  Lines 50-85, the loop: \<open>cap.read()\<close> takes the next frame of the input until there is
  none; each frame goes through the body and is written; \<open>frame_count\<close> counts them.
\<close>

fun ciclo ::
  "rat \<Rightarrow> rat \<Rightarrow> rat \<Rightarrow> int \<Rightarrow> nat \<Rightarrow> frame list \<Rightarrow> run_state \<Rightarrow> py_error option \<times> run_state" where
  "ciclo u ov f k frame_count [] s = (None, s)"
| "ciclo u ov f k frame_count (fr # rest) s =
     (case analizza_frame u ov f k frame_count fr of
        ((misurato, msgs), res) \<Rightarrow>
          (let s1 = s\<lparr>printed := printed s @ msgs,
                      analizzati := analizzati s @ (if misurato then [frame_count] else [])\<rparr>
           in case res of
                Inl e \<Rightarrow> (Some e, s1)
              | Inr fr' \<Rightarrow>
                  ciclo u ov f k (frame_count + 1) rest
                    (s1\<lparr>written := written s1 @ [fr']\<rparr>)))"

definition analizza_e_modifica_video ::
  "world \<Rightarrow> string \<Rightarrow> string \<Rightarrow> py_num \<Rightarrow> rat \<Rightarrow> rat \<Rightarrow> rat \<Rightarrow> py_error option \<times> run_state" where
  "analizza_e_modifica_video w percorso_video_input percorso_video_output fps_analisi
       soglia_sottoesposizione soglia_sovraesposizione fattore_correzione =
     (case readable w percorso_video_input of
        None \<Rightarrow> (None, stato_iniziale\<lparr>printed := [ErroreInput percorso_video_input]\<rparr>)
      | Some vid \<Rightarrow>
          (let s0 = stato_iniziale\<lparr>cap_held := True\<rparr>;
               fps = v_fps vid;
               larghezza = v_width vid;
               altezza = v_height vid
           in if \<not> creatable w percorso_video_output then
                (None, s0\<lparr>printed := [ErroreOutput percorso_video_output]\<rparr>)
              else
                (let s1 = s0\<lparr>out_held := True,
                            out_created := Some (fps, larghezza, altezza),
                            printed := [Inizio percorso_video_input,
                                        Salvataggio percorso_video_output, FrameRate fps]\<rparr>
                 in case frame_interval fps fps_analisi of
                      Inl e \<Rightarrow> (Some e, s1)
                    | Inr k \<Rightarrow>
                        (case ciclo soglia_sottoesposizione soglia_sovraesposizione
                                fattore_correzione k 0 (v_frames vid) s1 of
                           (Some e, s2) \<Rightarrow> (Some e, s2)
                         | (None, s2) \<Rightarrow>
                             (None, s2\<lparr>cap_held := False, out_held := False,
                                       printed := printed s2
                                                  @ [Completato percorso_video_output]\<rparr>)))))"

subsection \<open>Example inputs\<close>

text \<open>
  A frame of \<open>n\<close> pixels, all of them \<open>(v, v, v)\<close>; a four-frame video of such frames at
  20 frames per second; a world where that video is the only readable file and
  \<open>video_modificato.mp4\<close> the only path that can be created.
\<close>

definition uniforme :: "nat \<Rightarrow> 8 word \<Rightarrow> frame" where
  "uniforme n v = replicate n (v, v, v)"

definition video_esempio :: video where
  "video_esempio =
     \<lparr>v_fps = Finite 20, v_width = 2, v_height = 1,
      v_frames = [uniforme 2 10, uniforme 2 100, uniforme 2 250, uniforme 2 40]\<rparr>"

definition mondo_esempio :: world where
  "mondo_esempio =
     \<lparr>readable = [''video_originale.mp4'' \<mapsto> video_esempio],
      creatable = (\<lambda>p. p = ''video_modificato.mp4'')\<rparr>"

text \<open>
  Two runs on that world, with the thresholds 80 and 180 and the factor 1.2: \<open>esecuzione_A\<close>
  analyses 5 frames per second (one frame in 4), \<open>esecuzione_B\<close> analyses 20 (every frame).
\<close>

definition esecuzione_A :: "py_error option \<times> run_state" where
  "esecuzione_A =
     analizza_e_modifica_video mondo_esempio ''video_originale.mp4'' ''video_modificato.mp4''
       (PyInt 5) 80 180 (6 / 5)"

definition esecuzione_B :: "py_error option \<times> run_state" where
  "esecuzione_B =
     analizza_e_modifica_video mondo_esempio ''video_originale.mp4'' ''video_modificato.mp4''
       (PyInt 20) 80 180 (6 / 5)"

text \<open>
  The video of the example driver (lines 103-111): 100 frames at 20 frames per second, here
  all of intensity 100; and the run of lines 117-121 on it, 5 analysed frames per second.
\<close>

definition video_cento :: video where
  "video_cento =
     \<lparr>v_fps = Finite 20, v_width = 2, v_height = 1, v_frames = replicate 100 (uniforme 2 100)\<rparr>"

definition mondo_cento :: world where
  "mondo_cento =
     \<lparr>readable = [''video_originale.mp4'' \<mapsto> video_cento],
      creatable = (\<lambda>p. p = ''video_modificato.mp4'')\<rparr>"

definition esecuzione_cento :: "py_error option \<times> run_state" where
  "esecuzione_cento =
     analizza_e_modifica_video mondo_cento ''video_originale.mp4'' ''video_modificato.mp4''
       (PyInt 5) 70 190 (13 / 10)"

text \<open>The doubles that Python reads from the literals \<open>0.2\<close>, \<open>29.97\<close> and \<open>0.333\<close>.\<close>

definition double_0_2 :: rat where
  "double_0_2 = 3602879701896397 / 18014398509481984"

definition double_29_97 :: rat where
  "double_29_97 = 1054475631502295 / 35184372088832"

definition double_0_333 :: rat where
  "double_0_333 = 5998794703657501 / 18014398509481984"

section \<open>Properties\<close>

subsection \<open>The loop and its body\<close>

lemma analizza_frame_non_campionato:
  "\<not> campionato k i \<Longrightarrow> analizza_frame u ov f k i fr = ((False, []), Inr fr)"
  by (simp add: analizza_frame_def)

lemma analizza_frame_riesce:
  assumes "f \<noteq> 0" and "fr \<noteq> []"
  shows "\<exists>fr'. snd (analizza_frame u ov f k i fr) = Inr fr'"
  using assms by (simp add: analizza_frame_def cvtColor_BGR2GRAY_def Let_def)

lemma analizza_frame_misurato:
  assumes "snd (analizza_frame u ov f k i fr) = Inr fr'"
  shows "fst (fst (analizza_frame u ov f k i fr)) = campionato k i"
  using assms
  by (auto simp: analizza_frame_def cvtColor_BGR2GRAY_def Let_def split: if_splits)

lemma ciclo_scritti:
  "ciclo u ov f k i frs s = (r, s') \<Longrightarrow>
   \<exists>ws. written s' = written s @ ws \<and> length ws \<le> length frs \<and>
        (\<forall>j<length ws. snd (analizza_frame u ov f k (i + j) (frs ! j)) = Inr (ws ! j)) \<and>
        (r = None \<longrightarrow> length ws = length frs)"
proof (induction frs arbitrary: i s)
  case Nil
  then show ?case by simp
next
  case (Cons fr rest)
  obtain m msgs res where body: "analizza_frame u ov f k i fr = ((m, msgs), res)"
    by (cases "analizza_frame u ov f k i fr") auto
  define s1 where "s1 = s\<lparr>printed := printed s @ msgs,
      analizzati := analizzati s @ (if m then [i] else [])\<rparr>"
  show ?case
  proof (cases res)
    case (Inl e)
    with Cons.prems body have "written s' = written s" and "r = Some e"
      by (auto simp: Let_def)
    then show ?thesis by simp
  next
    case (Inr fr')
    with Cons.prems body
    have "ciclo u ov f k (i + 1) rest (s1\<lparr>written := written s1 @ [fr']\<rparr>) = (r, s')"
      by (simp add: Let_def s1_def)
    from Cons.IH [OF this] obtain ws where
      w: "written s' = (written s @ [fr']) @ ws" and
      l: "length ws \<le> length rest" and
      e: "\<forall>j<length ws. snd (analizza_frame u ov f k (i + 1 + j) (rest ! j)) = Inr (ws ! j)" and
      c: "r = None \<longrightarrow> length ws = length rest"
      by (auto simp: s1_def)
    have "\<forall>j<length (fr' # ws).
            snd (analizza_frame u ov f k (i + j) ((fr # rest) ! j)) = Inr ((fr' # ws) ! j)"
    proof (intro allI impI)
      fix j assume j: "j < length (fr' # ws)"
      show "snd (analizza_frame u ov f k (i + j) ((fr # rest) ! j)) = Inr ((fr' # ws) ! j)"
      proof (cases j)
        case 0
        with body Inr show ?thesis by simp
      next
        case (Suc j')
        with j e show ?thesis by simp
      qed
    qed
    with w l c show ?thesis
      by (intro exI [of _ "fr' # ws"]) simp
  qed
qed

lemma ciclo_completo:
  "(\<forall>j<length frs. \<exists>fr'. snd (analizza_frame u ov f k (i + j) (frs ! j)) = Inr fr') \<Longrightarrow>
   fst (ciclo u ov f k i frs s) = None"
proof (induction frs arbitrary: i s)
  case Nil
  then show ?case by simp
next
  case (Cons fr rest)
  from Cons.prems have "\<exists>fr'. snd (analizza_frame u ov f k (i + 0) ((fr # rest) ! 0)) = Inr fr'"
    by blast
  then obtain m msgs fr' where body: "analizza_frame u ov f k i fr = ((m, msgs), Inr fr')"
    by (cases "analizza_frame u ov f k i fr") auto
  have "\<forall>j<length rest. \<exists>fr'. snd (analizza_frame u ov f k (i + 1 + j) (rest ! j)) = Inr fr'"
  proof (intro allI impI)
    fix j assume "j < length rest"
    then have "Suc j < length (fr # rest)" by simp
    with Cons.prems
    have "\<exists>fr'. snd (analizza_frame u ov f k (i + Suc j) ((fr # rest) ! Suc j)) = Inr fr'"
      by blast
    then show "\<exists>fr'. snd (analizza_frame u ov f k (i + 1 + j) (rest ! j)) = Inr fr'"
      by simp
  qed
  from Cons.IH [OF this] body show ?case by (simp add: Let_def)
qed

lemma ciclo_analizzati:
  "ciclo u ov f k i frs s = (None, s') \<Longrightarrow>
   analizzati s' = analizzati s @ filter (campionato k) [i..<i + length frs]"
proof (induction frs arbitrary: i s)
  case Nil
  then show ?case by simp
next
  case (Cons fr rest)
  obtain m msgs res where body: "analizza_frame u ov f k i fr = ((m, msgs), res)"
    by (cases "analizza_frame u ov f k i fr") auto
  define s1 where "s1 = s\<lparr>printed := printed s @ msgs,
      analizzati := analizzati s @ (if m then [i] else [])\<rparr>"
  show ?case
  proof (cases res)
    case (Inl e)
    with Cons.prems body show ?thesis by (simp add: Let_def)
  next
    case (Inr fr')
    with body have m: "m = campionato k i"
      using analizza_frame_misurato [of u ov f k i fr fr'] by simp
    from Inr Cons.prems body
    have "ciclo u ov f k (i + 1) rest (s1\<lparr>written := written s1 @ [fr']\<rparr>) = (None, s')"
      by (simp add: Let_def s1_def)
    from Cons.IH [OF this]
    have "analizzati s' = analizzati s1 @ filter (campionato k) [i + 1..<i + 1 + length rest]"
      by simp
    moreover have "[i..<i + length (fr # rest)] = i # [i + 1..<i + 1 + length rest]"
      by (simp add: upt_rec)
    ultimately show ?thesis by (simp add: s1_def m)
  qed
qed

lemma esecuzione_scritti:
  assumes run: "analizza_e_modifica_video w inp outp rate u ov f = (r, s)"
    and vid: "readable w inp = Some vid"
    and k: "frame_interval (v_fps vid) rate = Inr k"
  shows "length (written s) \<le> length (v_frames vid) \<and>
         (\<forall>j<length (written s).
             snd (analizza_frame u ov f k j (v_frames vid ! j)) = Inr (written s ! j)) \<and>
         (creatable w outp \<and> r = None \<longrightarrow> length (written s) = length (v_frames vid))"
proof (cases "creatable w outp")
  case False
  with run vid have "written s = []"
    by (auto simp: analizza_e_modifica_video_def stato_iniziale_def Let_def)
  with False show ?thesis by simp
next
  case True
  define s1 where "s1 = stato_iniziale\<lparr>cap_held := True, out_held := True,
      out_created := Some (v_fps vid, v_width vid, v_height vid),
      printed := [Inizio inp, Salvataggio outp, FrameRate (v_fps vid)]\<rparr>"
  obtain r2 s2 where c: "ciclo u ov f k 0 (v_frames vid) s1 = (r2, s2)"
    by (cases "ciclo u ov f k 0 (v_frames vid) s1")
  have w1: "written s1 = []" by (simp add: s1_def stato_iniziale_def)
  from run vid k True c have rs: "r = r2 \<and> written s = written s2"
    by (cases r2) (auto simp: analizza_e_modifica_video_def Let_def s1_def)
  from ciclo_scritti [OF c] w1 rs show ?thesis by auto
qed

lemma esecuzione_normale_intervallo:
  assumes run: "analizza_e_modifica_video w inp outp rate u ov f = (None, s)"
    and vid: "readable w inp = Some vid"
    and out: "creatable w outp"
  shows "\<exists>k. frame_interval (v_fps vid) rate = Inr k"
  using assms
  by (cases "frame_interval (v_fps vid) rate")
     (auto simp: analizza_e_modifica_video_def Let_def)

lemma esecuzione_analizzati:
  assumes run: "analizza_e_modifica_video w inp outp rate u ov f = (None, s)"
    and vid: "readable w inp = Some vid"
    and out: "creatable w outp"
    and k: "frame_interval (v_fps vid) rate = Inr k"
  shows "analizzati s = filter (campionato k) [0..<length (v_frames vid)]"
proof -
  define s1 where "s1 = stato_iniziale\<lparr>cap_held := True, out_held := True,
      out_created := Some (v_fps vid, v_width vid, v_height vid),
      printed := [Inizio inp, Salvataggio outp, FrameRate (v_fps vid)]\<rparr>"
  obtain r2 s2 where c: "ciclo u ov f k 0 (v_frames vid) s1 = (r2, s2)"
    by (cases "ciclo u ov f k 0 (v_frames vid) s1")
  have a1: "analizzati s1 = []" by (simp add: s1_def stato_iniziale_def)
  from run vid k out c have rs: "r2 = None \<and> analizzati s = analizzati s2"
    by (cases r2) (auto simp: analizza_e_modifica_video_def Let_def s1_def)
  with c have "ciclo u ov f k 0 (v_frames vid) s1 = (None, s2)" by simp
  from ciclo_analizzati [OF this] a1 rs show ?thesis by simp
qed

lemma scritto_da_corpo:
  assumes "analizza_e_modifica_video w inp outp rate u ov f = (r, s)"
    and "readable w inp = Some vid"
    and "frame_interval (v_fps vid) rate = Inr k"
    and "i < length (written s)"
  shows "snd (analizza_frame u ov f k i (v_frames vid ! i)) = Inr (written s ! i)"
  using esecuzione_scritti [OF assms(1-3)] assms(4) by blast

lemma analizza_frame_campionato:
  assumes "campionato k i" and "snd (analizza_frame u ov f k i fr) = Inr fr'"
  shows "fr \<noteq> [] \<and>
         fr' = (if np_mean (map grigio fr) < u then convertScaleAbs fr f 0
                else if ov < np_mean (map grigio fr) then convertScaleAbs fr (1 / f) 0
                else fr)"
  using assms
  by (auto simp: analizza_frame_def cvtColor_BGR2GRAY_def Let_def split: if_splits)

lemma scritto_campionato:
  assumes "analizza_e_modifica_video w inp outp rate u ov f = (r, s)"
    and "readable w inp = Some vid"
    and "frame_interval (v_fps vid) rate = Inr k"
    and "i < length (written s)"
    and "campionato k i"
  shows "v_frames vid ! i \<noteq> [] \<and>
         written s ! i =
           (if np_mean (map grigio (v_frames vid ! i)) < u
            then convertScaleAbs (v_frames vid ! i) f 0
            else if ov < np_mean (map grigio (v_frames vid ! i))
            then convertScaleAbs (v_frames vid ! i) (1 / f) 0
            else v_frames vid ! i)"
  using analizza_frame_campionato [OF assms(5) scritto_da_corpo [OF assms(1-4)]] .







lemma cvRound_of_nat: "cvRound (of_nat m) = int m"
  by (simp add: cvRound_def Let_def)


lemma grigio_uniforme: "grigio (v, v, v) = v"
proof -
  have "114 / 1000 * (of_nat (unat v) :: rat) + 587 / 1000 * of_nat (unat v)
          + 299 / 1000 * of_nat (unat v) = of_nat (unat v)"
    by (simp add: field_simps)
  then have "grigio (v, v, v) = saturate_cast_uchar (cvRound (of_nat (unat v)))"
    by (simp only: grigio_def prod.case)
  also have "\<dots> = saturate_cast_uchar (int (unat v))"
    by (simp only: cvRound_of_nat)
  also have "\<dots> = word_of_int (int (unat v))"
  proof -
    have "int (unat v) < 256"
      using unsigned_less [of v, where ?'a = int] by simp
    then show ?thesis by (simp add: saturate_cast_uchar_def)
  qed
  also have "\<dots> = v" by simp
  finally show ?thesis .
qed

lemma np_mean_uniforme:
  assumes "0 < n"
  shows "np_mean (map grigio (uniforme n v)) = of_nat (unat v)"
proof -
  have "map unat (map grigio (uniforme n v)) = replicate n (unat v)"
    by (simp add: uniforme_def grigio_uniforme)
  then have "sum_list (map unat (map grigio (uniforme n v))) = n * unat v"
    by (simp add: sum_list_replicate)
  then show ?thesis using assms by (simp add: np_mean_def uniforme_def)
qed




lemma esecuzione_completa:
  assumes vid: "readable w inp = Some vid"
    and out: "creatable w outp"
    and k: "frame_interval (v_fps vid) fps_analisi = Inr k"
    and f: "f \<noteq> 0"
    and ne: "\<forall>fr \<in> set (v_frames vid). fr \<noteq> []"
  shows "\<exists>s. analizza_e_modifica_video w inp outp fps_analisi u ov f = (None, s) \<and>
           length (written s) = length (v_frames vid) \<and>
           (\<forall>i<length (v_frames vid).
               snd (analizza_frame u ov f k i (v_frames vid ! i)) = Inr (written s ! i))"
proof -
  define s1 where "s1 = stato_iniziale\<lparr>cap_held := True, out_held := True,
      out_created := Some (v_fps vid, v_width vid, v_height vid),
      printed := [Inizio inp, Salvataggio outp, FrameRate (v_fps vid)]\<rparr>"
  obtain r2 s2 where c: "ciclo u ov f k 0 (v_frames vid) s1 = (r2, s2)"
    by (cases "ciclo u ov f k 0 (v_frames vid) s1")
  have "\<forall>j<length (v_frames vid).
          \<exists>fr'. snd (analizza_frame u ov f k (0 + j) (v_frames vid ! j)) = Inr fr'"
    using ne f by (auto intro: analizza_frame_riesce)
  from ciclo_completo [OF this, of s1] c have r2: "r2 = None" by simp
  define s where "s = s2\<lparr>cap_held := False, out_held := False,
      printed := printed s2 @ [Completato outp]\<rparr>"
  from vid out k c r2
  have run: "analizza_e_modifica_video w inp outp fps_analisi u ov f = (None, s)"
    by (simp add: analizza_e_modifica_video_def Let_def s1_def s_def)
  from esecuzione_scritti [OF run vid k] out
  have "length (written s) = length (v_frames vid)"
    and "\<forall>j<length (written s).
           snd (analizza_frame u ov f k j (v_frames vid ! j)) = Inr (written s ! j)"
    by simp_all
  with run show ?thesis by auto
qed

lemma analizza_frame_uniforme:
  assumes "0 < n" and "campionato k i"
  shows "snd (analizza_frame u ov f k i (uniforme n v)) =
         (if of_nat (unat v) < u then Inr (uniforme n (scala_canale f 0 v))
          else if ov < of_nat (unat v) then
            (if f = 0 then Inl ZeroDivisionError else Inr (uniforme n (scala_canale (1 / f) 0 v)))
          else Inr (uniforme n v))"
proof -
  have ne: "uniforme n v \<noteq> []"
    using assms(1) by (simp add: uniforme_def)
  have sc: "convertScaleAbs (uniforme n v) g 0 = uniforme n (scala_canale g 0 v)" for g
    by (simp add: convertScaleAbs_def uniforme_def)
  show ?thesis
    using ne assms(2)
    by (simp add: analizza_frame_def cvtColor_BGR2GRAY_def np_mean_uniforme [OF assms(1)]
          Let_def sc)
qed

subsection \<open>The interval\<close>

lemma tronca_max: "max 1 (if 0 \<le> a then \<lfloor>a\<rfloor> else \<lceil>a\<rceil>) = max 1 \<lfloor>a::rat\<rfloor>"
proof (cases "0 \<le> a")
  case True
  then show ?thesis by simp
next
  case False
  then have "\<lceil>a\<rceil> \<le> 0" and "\<lfloor>a\<rfloor> \<le> 0"
    by (simp_all add: ceiling_le_iff floor_le_iff)
  with False show ?thesis by simp
qed

lemma frame_interval_quoziente:
  assumes "py_truediv fps fps_analisi = Inr (Finite q)"
  shows "frame_interval fps fps_analisi = Inr (max 1 \<lfloor>q\<rfloor>)"
proof -
  have "frame_interval fps fps_analisi = Inr (max 1 (if 0 \<le> q then \<lfloor>q\<rfloor> else \<lceil>q\<rceil>))"
    using assms by (simp add: frame_interval_def py_int_def max_def)
  then show ?thesis by (simp only: tronca_max)
qed

lemma frame_interval_zero:
  assumes "fps_analisi = PyInt 0 \<or> fps_analisi = PyFloat (Finite 0)"
  shows "frame_interval fps fps_analisi = Inl ZeroDivisionError"
  using assms
  by (auto simp: frame_interval_def py_truediv_def float_of_num_def round_double_def)

lemma campionati_cento: "filter (campionato 4) [0..<100] = map (\<lambda>j. 4 * j) [0..<25]"
  by code_simp

lemma quozienti:
  "py_truediv (Finite 20) (PyInt 5) = Inr (Finite 4)"
  "py_truediv (Finite 20) (PyInt 20) = Inr (Finite 1)"
  "py_truediv (Finite 10) (PyFloat (Finite double_0_2)) = Inr (Finite 50)"
  "py_truediv (Finite double_29_97) (PyFloat (Finite double_0_333))
     = Inr (Finite (6333186975989759 / 70368744177664))"
  "py_truediv (Finite 20) (PyInt 3) = Inr (Finite (7505999378950827 / 1125899906842624))"
  "py_truediv (Finite 20) (PyInt 30) = Inr (Finite (6004799503160661 / 9007199254740992))"
  by code_simp+

lemma parti_intere:
  "\<lfloor>6333186975989759 / 70368744177664 :: rat\<rfloor> = 89"
  "\<lfloor>7505999378950827 / 1125899906842624 :: rat\<rfloor> = 6"
  "\<lfloor>6004799503160661 / 9007199254740992 :: rat\<rfloor> = 0"
  by code_simp+

lemma campionati_quattro:
  "filter (campionato 6) [0..<4] = [0]" "filter (campionato 1) [0..<4] = [0, 1, 2, 3]"
  by code_simp+

subsection \<open>The abort paths\<close>

lemma esecuzione_zero:
  assumes "readable w inp = Some vid" and "creatable w outp"
    and "fps_analisi = PyInt 0 \<or> fps_analisi = PyFloat (Finite 0)"
  shows "\<exists>s. analizza_e_modifica_video w inp outp fps_analisi u ov f
               = (Some ZeroDivisionError, s) \<and>
             cap_held s \<and> out_held s \<and>
             out_created s = Some (v_fps vid, v_width vid, v_height vid) \<and> written s = []"
  using assms(1,2) frame_interval_zero [OF assms(3), of "v_fps vid"]
  by (simp add: analizza_e_modifica_video_def stato_iniziale_def Let_def)

lemma esecuzione_output_non_creabile:
  assumes "readable w inp = Some vid" and "\<not> creatable w outp"
  shows "analizza_e_modifica_video w inp outp fps_analisi u ov f =
         (None, \<lparr>cap_held = True, out_held = False, out_created = None, written = [],
                 printed = [ErroreOutput outp], analizzati = []\<rparr>)"
  using assms by (simp add: analizza_e_modifica_video_def stato_iniziale_def Let_def)

subsection \<open>The example runs\<close>

lemma esempio_leggibile:
  "readable mondo_esempio ''video_originale.mp4'' = Some video_esempio"
  by (simp add: mondo_esempio_def)

lemma esempio_creabile: "creatable mondo_esempio ''video_modificato.mp4''"
  by (simp add: mondo_esempio_def)

lemma esempio_non_creabile: "\<not> creatable mondo_esempio ''cartella_assente/video_modificato.mp4''"
  by (simp add: mondo_esempio_def)

lemma esempio_frame_non_vuoti: "\<forall>fr \<in> set (v_frames video_esempio). fr \<noteq> []"
  by (simp add: video_esempio_def uniforme_def)

lemma esempio_fps: "v_fps video_esempio = Finite 20"
  by (simp add: video_esempio_def)

lemma intervallo_cinque: "frame_interval (Finite 20) (PyInt 5) = Inr 4"
  using frame_interval_quoziente [OF quozienti(1)] by simp

lemma intervallo_venti: "frame_interval (Finite 20) (PyInt 20) = Inr 1"
  using frame_interval_quoziente [OF quozienti(2)] by simp

lemma esempio_intervallo_A: "frame_interval (v_fps video_esempio) (PyInt 5) = Inr 4"
  by (simp only: esempio_fps intervallo_cinque)

lemma esempio_intervallo_B: "frame_interval (v_fps video_esempio) (PyInt 20) = Inr 1"
  by (simp only: esempio_fps intervallo_venti)

lemma esempio_scritto:
  assumes "f \<noteq> 0" and "frame_interval (Finite 20) rate = Inr k" and "i < 4"
  shows "snd (analizza_frame u ov f k i (v_frames video_esempio ! i)) =
         Inr (written (snd (analizza_e_modifica_video mondo_esempio ''video_originale.mp4''
                              ''video_modificato.mp4'' rate u ov f)) ! i)"
proof -
  have k: "frame_interval (v_fps video_esempio) rate = Inr k"
    using assms(2) by (simp only: esempio_fps)
  from esecuzione_completa
         [OF esempio_leggibile esempio_creabile k assms(1) esempio_frame_non_vuoti, of u ov]
  obtain s where
    run: "analizza_e_modifica_video mondo_esempio ''video_originale.mp4''
            ''video_modificato.mp4'' rate u ov f = (None, s)" and
    w: "\<forall>i<length (v_frames video_esempio).
          snd (analizza_frame u ov f k i (v_frames video_esempio ! i)) = Inr (written s ! i)"
    by blast
  have "i < length (v_frames video_esempio)"
    using assms(3) by (simp add: video_esempio_def)
  with w run show ?thesis by simp
qed

lemma esempio_lunghezza:
  assumes "f \<noteq> 0" and "frame_interval (Finite 20) rate = Inr k"
  shows "fst (analizza_e_modifica_video mondo_esempio ''video_originale.mp4''
                ''video_modificato.mp4'' rate u ov f) = None \<and>
         length (written (snd (analizza_e_modifica_video mondo_esempio ''video_originale.mp4''
                                 ''video_modificato.mp4'' rate u ov f))) = 4"
proof -
  have k: "frame_interval (v_fps video_esempio) rate = Inr k"
    using assms(2) by (simp only: esempio_fps)
  from esecuzione_completa
         [OF esempio_leggibile esempio_creabile k assms(1) esempio_frame_non_vuoti, of u ov]
  show ?thesis by (auto simp: video_esempio_def)
qed

lemma esecuzione_A_completa:
  "fst esecuzione_A = None \<and> length (written (snd esecuzione_A)) = 4"
  unfolding esecuzione_A_def by (rule esempio_lunghezza [OF _ intervallo_cinque]) simp

lemma esecuzione_B_completa:
  "fst esecuzione_B = None \<and> length (written (snd esecuzione_B)) = 4"
  unfolding esecuzione_B_def by (rule esempio_lunghezza [OF _ intervallo_venti]) simp

lemma esempio_frame:
  "v_frames video_esempio ! 0 = uniforme 2 10" "v_frames video_esempio ! 1 = uniforme 2 100"
  "v_frames video_esempio ! 2 = uniforme 2 250" "v_frames video_esempio ! 3 = uniforme 2 40"
  by (simp_all add: video_esempio_def)

lemma uniforme_diverso: "0 < n \<Longrightarrow> a \<noteq> b \<Longrightarrow> uniforme n a \<noteq> uniforme n b"
  by (cases n) (simp_all add: uniforme_def)

lemma campionato_uno: "campionato 1 i"
  by (simp add: campionato_def)

lemma valori_scala:
  "scala_canale (6 / 5) 0 100 = 120" "scala_canale (6 / 5) 0 10 = 12"
  "scala_canale (- 1) 0 10 = 10" "spec_scala (- 1) 10 = 0" "spec_scala (6 / 5) 10 = 12"
  "(word_of_int (spec_clamp (cvRound (of_nat (unat (100::8 word)) / (6 / 5)))) :: 8 word) = 83"
  by code_simp+

lemma esempio_luminosita:
  "np_mean (map grigio (v_frames video_esempio ! 0)) = 10"
  "np_mean (map grigio (v_frames video_esempio ! 1)) = 100"
  "np_mean (map grigio (v_frames video_esempio ! 2)) = 250"
  "np_mean (map grigio (v_frames video_esempio ! 3)) = 40"
  by (simp_all only: esempio_frame) (simp_all add: np_mean_uniforme)

lemma cento_leggibile: "readable mondo_cento ''video_originale.mp4'' = Some video_cento"
  by (simp add: mondo_cento_def)

lemma cento_creabile: "creatable mondo_cento ''video_modificato.mp4''"
  by (simp add: mondo_cento_def)

lemma cento_fps: "v_fps video_cento = Finite 20"
  by (simp add: video_cento_def)

lemma cento_lunghezza: "length (v_frames video_cento) = 100"
  by (simp add: video_cento_def)

lemma esecuzione_cento_completa: "fst esecuzione_cento = None"
proof -
  have k: "frame_interval (v_fps video_cento) (PyInt 5) = Inr 4"
    by (simp only: cento_fps intervallo_cinque)
  have ne: "\<forall>fr \<in> set (v_frames video_cento). fr \<noteq> []"
    by (simp add: video_cento_def uniforme_def)
  have f: "(13 / 10 :: rat) \<noteq> 0" by simp
  from esecuzione_completa [OF cento_leggibile cento_creabile k f ne, of 70 190]
  show ?thesis by (auto simp: esecuzione_cento_def)
qed

subsection \<open>Order and count of the written frames\<close>

text \<open>
  C1, amended. When the input opens and the output can be created, a run that returns
  normally has written exactly as many frames as the input has, and the frame written at
  position \<open>i\<close> is what the body of the loop makes of the frame read at position \<open>i\<close>:
  nothing is dropped, repeated or reordered. The run does return normally whenever lines
  46-48 yield an interval, \<open>fattore_correzione\<close> is not zero and no frame is empty.
\<close>

theorem scrittura_ordinata_completa:
  assumes vid: "readable w inp = Some vid"
    and out: "creatable w outp"
    and run: "analizza_e_modifica_video w inp outp fps_analisi u ov f = (r, s)"
  shows "(r = None \<longrightarrow>
            length (written s) = length (v_frames vid) \<and>
            (\<exists>k. frame_interval (v_fps vid) fps_analisi = Inr k \<and>
                 (\<forall>i<length (v_frames vid).
                     snd (analizza_frame u ov f k i (v_frames vid ! i))
                       = Inr (written s ! i)))) \<and>
         ((\<exists>k. frame_interval (v_fps vid) fps_analisi = Inr k) \<and> f \<noteq> 0 \<and>
          (\<forall>fr \<in> set (v_frames vid). fr \<noteq> []) \<longrightarrow> r = None)"
proof (intro conjI impI)
  assume r: "r = None"
  with run have run': "analizza_e_modifica_video w inp outp fps_analisi u ov f = (None, s)"
    by simp
  from esecuzione_normale_intervallo [OF run' vid out]
  obtain k where k: "frame_interval (v_fps vid) fps_analisi = Inr k" ..
  from esecuzione_scritti [OF run vid k] out r
  have len: "length (written s) = length (v_frames vid)"
    and w: "\<forall>j<length (written s).
           snd (analizza_frame u ov f k j (v_frames vid ! j)) = Inr (written s ! j)"
    by simp_all
  show "length (written s) = length (v_frames vid)" by (rule len)
  show "\<exists>k. frame_interval (v_fps vid) fps_analisi = Inr k \<and>
           (\<forall>i<length (v_frames vid).
               snd (analizza_frame u ov f k i (v_frames vid ! i)) = Inr (written s ! i))"
    using k w len by auto
next
  assume "(\<exists>k. frame_interval (v_fps vid) fps_analisi = Inr k) \<and> f \<noteq> 0 \<and>
          (\<forall>fr \<in> set (v_frames vid). fr \<noteq> [])"
  then obtain k where k: "frame_interval (v_fps vid) fps_analisi = Inr k"
    and f: "f \<noteq> 0" and ne: "\<forall>fr \<in> set (v_frames vid). fr \<noteq> []"
    by blast
  from esecuzione_completa [OF vid out k f ne, of u ov] run show "r = None"
    by auto
qed

theorem scrittura_ordinata_completa_witness:
  "readable mondo_esempio ''video_originale.mp4'' = Some video_esempio \<and>
   creatable mondo_esempio ''video_modificato.mp4'' \<and>
   frame_interval (v_fps video_esempio) (PyInt 5) = Inr 4 \<and>
   fst esecuzione_A = None \<and>
   length (written (snd esecuzione_A)) = length (v_frames video_esempio) \<and>
   snd (analizza_frame 80 180 (6 / 5) 4 0 (v_frames video_esempio ! 0))
     = Inr (written (snd esecuzione_A) ! 0) \<and>
   snd (analizza_frame 80 180 (6 / 5) 4 3 (v_frames video_esempio ! 3))
     = Inr (written (snd esecuzione_A) ! 3)"
proof -
  have run: "analizza_e_modifica_video mondo_esempio ''video_originale.mp4''
               ''video_modificato.mp4'' (PyInt 5) 80 180 (6 / 5)
             = (fst esecuzione_A, snd esecuzione_A)"
    by (simp add: esecuzione_A_def)
  have pre: "(\<exists>k. frame_interval (v_fps video_esempio) (PyInt 5) = Inr k) \<and>
             (6 / 5 :: rat) \<noteq> 0 \<and> (\<forall>fr \<in> set (v_frames video_esempio). fr \<noteq> [])"
    using esempio_intervallo_A esempio_frame_non_vuoti by simp
  have n: "0 < length (v_frames video_esempio)" "3 < length (v_frames video_esempio)"
    by (simp_all add: video_esempio_def)
  from scrittura_ordinata_completa [OF esempio_leggibile esempio_creabile run] pre
  show ?thesis
    using esempio_leggibile esempio_creabile esempio_intervallo_A n by auto
qed

text \<open>
  C1 as stated fails on runs that do not reach the end of the loop. On the four-frame
  example, \<open>fps_analisi = 0\<close> raises at line 46 and nothing is written; and an output path
  that cannot be created makes the function return at line 37 with nothing written.
\<close>

theorem scrittura_ordinata_controesempio:
  "readable mondo_esempio ''video_originale.mp4'' = Some video_esempio \<and>
   length (v_frames video_esempio) = 4 \<and>
   fst (analizza_e_modifica_video mondo_esempio ''video_originale.mp4''
          ''video_modificato.mp4'' (PyInt 0) 80 180 (6 / 5)) = Some ZeroDivisionError \<and>
   written (snd (analizza_e_modifica_video mondo_esempio ''video_originale.mp4''
                   ''video_modificato.mp4'' (PyInt 0) 80 180 (6 / 5))) = [] \<and>
   fst (analizza_e_modifica_video mondo_esempio ''video_originale.mp4''
          ''cartella_assente/video_modificato.mp4'' (PyInt 5) 80 180 (6 / 5)) = None \<and>
   written (snd (analizza_e_modifica_video mondo_esempio ''video_originale.mp4''
                   ''cartella_assente/video_modificato.mp4'' (PyInt 5) 80 180 (6 / 5))) = []"
proof -
  have z: "PyInt 0 = PyInt 0 \<or> PyInt 0 = PyFloat (Finite 0)" by simp
  from esecuzione_zero [OF esempio_leggibile esempio_creabile z, of 80 180 "6 / 5"]
  have "fst (analizza_e_modifica_video mondo_esempio ''video_originale.mp4''
          ''video_modificato.mp4'' (PyInt 0) 80 180 (6 / 5)) = Some ZeroDivisionError"
    and "written (snd (analizza_e_modifica_video mondo_esempio ''video_originale.mp4''
                   ''video_modificato.mp4'' (PyInt 0) 80 180 (6 / 5))) = []"
    by auto
  moreover have "length (v_frames video_esempio) = 4"
    by (simp add: video_esempio_def)
  ultimately show ?thesis
    using esempio_leggibile
    by (simp add: esecuzione_output_non_creabile [OF esempio_leggibile esempio_non_creabile])
qed

subsection \<open>Frames off the sampling interval\<close>

text \<open>
  C2. In any run, a frame written at a position \<open>i\<close> that the test of line 58 does not
  select (\<open>i mod frame_interval \<noteq> 0\<close>) is the frame read at position \<open>i\<close>, unchanged.
\<close>

theorem frame_non_campionato_invariato:
  assumes "analizza_e_modifica_video w inp outp fps_analisi u ov f = (r, s)"
    and "readable w inp = Some vid"
    and "frame_interval (v_fps vid) fps_analisi = Inr k"
    and "i < length (written s)"
    and "\<not> campionato k i"
  shows "written s ! i = v_frames vid ! i"
  using scritto_da_corpo [OF assms(1-4)] analizza_frame_non_campionato [OF assms(5)]
  by simp

theorem frame_non_campionato_invariato_witness:
  "frame_interval (v_fps video_esempio) (PyInt 5) = Inr 4 \<and> \<not> campionato 4 1 \<and>
   1 < length (written (snd esecuzione_A)) \<and>
   written (snd esecuzione_A) ! 1 = v_frames video_esempio ! 1"
proof -
  have run: "analizza_e_modifica_video mondo_esempio ''video_originale.mp4''
               ''video_modificato.mp4'' (PyInt 5) 80 180 (6 / 5)
             = (fst esecuzione_A, snd esecuzione_A)"
    by (simp add: esecuzione_A_def)
  have len: "1 < length (written (snd esecuzione_A))"
    using esecuzione_A_completa by simp
  have nc: "\<not> campionato 4 1"
    by (simp add: campionato_def)
  from frame_non_campionato_invariato [OF run esempio_leggibile esempio_intervallo_A len nc]
  show ?thesis using esempio_intervallo_A len nc by (intro conjI) assumption+
qed

subsection \<open>The abort paths and the handles\<close>

text \<open>
  C4. The run of the example world with an output path that cannot be created: the function
  prints the error and returns at line 37 while the capture still holds the input;
  \<open>cap.release()\<close> of line 88 is only reached on normal completion.
\<close>

theorem output_non_creabile_input_non_rilasciato:
  "analizza_e_modifica_video mondo_esempio ''video_originale.mp4''
     ''cartella_assente/video_modificato.mp4'' (PyInt 5) 70 190 (13 / 10) =
   (None, \<lparr>cap_held = True, out_held = False, out_created = None, written = [],
           printed = [ErroreOutput ''cartella_assente/video_modificato.mp4''],
           analizzati = []\<rparr>)"
  by (simp add: analizza_e_modifica_video_def mondo_esempio_def stato_iniziale_def Let_def)

text \<open>
  C5. When the input cannot be opened the function prints the error and returns: no output
  file has been created, no handle is held, no frame has been written.
\<close>

theorem input_non_apribile_nessun_output:
  assumes "readable w inp = None"
  shows "\<exists>s. analizza_e_modifica_video w inp outp fps_analisi u ov f = (None, s) \<and>
             printed s = [ErroreInput inp] \<and> out_created s = None \<and> \<not> out_held s \<and>
             \<not> cap_held s \<and> written s = []"
  using assms by (simp add: analizza_e_modifica_video_def stato_iniziale_def)

theorem input_non_apribile_nessun_output_witness:
  "readable mondo_esempio ''video_assente.mp4'' = None \<and>
   (\<exists>s. analizza_e_modifica_video mondo_esempio ''video_assente.mp4''
           ''video_modificato.mp4'' (PyInt 5) 70 190 (13 / 10) = (None, s) \<and>
        printed s = [ErroreInput ''video_assente.mp4''] \<and> out_created s = None \<and>
        \<not> out_held s \<and> \<not> cap_held s \<and> written s = [])"
proof -
  have h: "readable mondo_esempio ''video_assente.mp4'' = None"
    by (simp add: mondo_esempio_def)
  from input_non_apribile_nessun_output
         [OF h, of "''video_modificato.mp4''" "PyInt 5" 70 190 "13 / 10"] h
  show ?thesis by (intro conjI) assumption+
qed

text \<open>
  C9. With \<open>fps_analisi = 0\<close> (the int or the float), once the input is open and the output
  created, the division of line 46 raises ZeroDivisionError: both handles are still held, the
  output file exists and no frame has been written.
\<close>

theorem fps_analisi_zero_divisione:
  assumes "readable w inp = Some vid" and "creatable w outp"
    and "fps_analisi = PyInt 0 \<or> fps_analisi = PyFloat (Finite 0)"
  shows "\<exists>s. analizza_e_modifica_video w inp outp fps_analisi u ov f
               = (Some ZeroDivisionError, s) \<and>
             cap_held s \<and> out_held s \<and>
             out_created s = Some (v_fps vid, v_width vid, v_height vid) \<and> written s = []"
  using assms by (rule esecuzione_zero)

theorem fps_analisi_zero_divisione_witness:
  "readable mondo_esempio ''video_originale.mp4'' = Some video_esempio \<and>
   creatable mondo_esempio ''video_modificato.mp4'' \<and>
   (\<exists>s. analizza_e_modifica_video mondo_esempio ''video_originale.mp4''
           ''video_modificato.mp4'' (PyInt 0) 70 190 (13 / 10) = (Some ZeroDivisionError, s) \<and>
        cap_held s \<and> out_held s \<and>
        out_created s = Some (v_fps video_esempio, v_width video_esempio,
                              v_height video_esempio) \<and>
        written s = [])"
proof -
  have z: "PyInt 0 = PyInt 0 \<or> PyInt 0 = PyFloat (Finite 0)" by simp
  from fps_analisi_zero_divisione
         [OF esempio_leggibile esempio_creabile z, of 70 190 "13 / 10"]
  show ?thesis using esempio_leggibile esempio_creabile by (intro conjI) assumption+
qed

subsection \<open>The sampling interval\<close>

text \<open>
  C6, amended. When the double quotient \<open>fps / fps_analisi\<close> of line 46 is finite
  (\<open>fps_analisi\<close> not zero, no overflow, no NaN), the interval is the floor of that quotient,
  raised to 1 when smaller: Python's \<open>int\<close> truncates towards zero, which differs from the
  floor only on negative quotients, and those are raised to 1 either way. In a run that
  returns normally, the frames whose mean luminance is computed are exactly those whose
  index is a multiple of the interval. At 20 frames per second and \<open>fps_analisi = 5\<close> the
  quotient is 4, and of 100 frames the indices 0, 4, 8, ..., 96 are analysed.
\<close>

theorem frame_interval_quoziente_double:
  assumes "readable w inp = Some vid"
    and "creatable w outp"
    and "analizza_e_modifica_video w inp outp fps_analisi u ov f = (None, s)"
    and "py_truediv (v_fps vid) fps_analisi = Inr (Finite q)"
  shows "frame_interval (v_fps vid) fps_analisi = Inr (max 1 \<lfloor>q\<rfloor>) \<and>
         analizzati s = filter (campionato (max 1 \<lfloor>q\<rfloor>)) [0..<length (v_frames vid)] \<and>
         (v_fps vid = Finite 20 \<and> fps_analisi = PyInt 5 \<and> length (v_frames vid) = 100 \<longrightarrow>
            q = 4 \<and> analizzati s = map (\<lambda>j. 4 * j) [0..<25])"
proof -
  note k = frame_interval_quoziente [OF assms(4)]
  note a = esecuzione_analizzati [OF assms(3) assms(1) assms(2) k]
  have "q = 4 \<and> analizzati s = map (\<lambda>j. 4 * j) [0..<25]"
    if h: "v_fps vid = Finite 20 \<and> fps_analisi = PyInt 5 \<and> length (v_frames vid) = 100"
  proof -
    from h assms(4) have q: "q = 4" by (simp add: quozienti)
    with a h show ?thesis by (simp add: campionati_cento)
  qed
  with k a show ?thesis by blast
qed

theorem frame_interval_quoziente_double_witness:
  "readable mondo_cento ''video_originale.mp4'' = Some video_cento \<and>
   creatable mondo_cento ''video_modificato.mp4'' \<and>
   fst esecuzione_cento = None \<and>
   py_truediv (v_fps video_cento) (PyInt 5) = Inr (Finite 4) \<and>
   length (v_frames video_cento) = 100 \<and>
   frame_interval (v_fps video_cento) (PyInt 5) = Inr 4 \<and>
   analizzati (snd esecuzione_cento) = map (\<lambda>j. 4 * j) [0..<25] \<and>
   py_truediv (v_fps video_esempio) (PyInt 3)
     = Inr (Finite (7505999378950827 / 1125899906842624)) \<and>
   frame_interval (v_fps video_esempio) (PyInt 3) = Inr 6 \<and>
   analizzati (snd (analizza_e_modifica_video mondo_esempio ''video_originale.mp4''
                      ''video_modificato.mp4'' (PyInt 3) 80 180 (6 / 5))) = [0] \<and>
   py_truediv (v_fps video_esempio) (PyInt 30)
     = Inr (Finite (6004799503160661 / 9007199254740992)) \<and>
   frame_interval (v_fps video_esempio) (PyInt 30) = Inr 1 \<and>
   analizzati (snd (analizza_e_modifica_video mondo_esempio ''video_originale.mp4''
                      ''video_modificato.mp4'' (PyInt 30) 80 180 (6 / 5))) = [0, 1, 2, 3]"
proof -
  have run: "analizza_e_modifica_video mondo_cento ''video_originale.mp4''
               ''video_modificato.mp4'' (PyInt 5) 70 190 (13 / 10)
             = (None, snd esecuzione_cento)"
    using esecuzione_cento_completa by (simp add: esecuzione_cento_def prod_eq_iff)
  have q: "py_truediv (v_fps video_cento) (PyInt 5) = Inr (Finite 4)"
    by (simp only: cento_fps quozienti)
  have q3: "py_truediv (v_fps video_esempio) (PyInt 3)
      = Inr (Finite (7505999378950827 / 1125899906842624))"
    and q30: "py_truediv (v_fps video_esempio) (PyInt 30)
      = Inr (Finite (6004799503160661 / 9007199254740992))"
    by (simp_all only: esempio_fps quozienti)
  have k3: "frame_interval (Finite 20) (PyInt 3) = Inr 6"
    using frame_interval_quoziente [OF quozienti(5)] by (simp add: parti_intere)
  have k30: "frame_interval (Finite 20) (PyInt 30) = Inr 1"
    using frame_interval_quoziente [OF quozienti(6)] by (simp add: parti_intere)
  have f: "(6 / 5 :: rat) \<noteq> 0" by simp
  have run3: "analizza_e_modifica_video mondo_esempio ''video_originale.mp4''
               ''video_modificato.mp4'' (PyInt 3) 80 180 (6 / 5)
             = (None, snd (analizza_e_modifica_video mondo_esempio ''video_originale.mp4''
                             ''video_modificato.mp4'' (PyInt 3) 80 180 (6 / 5)))"
    using esempio_lunghezza [OF f k3, of 80 180] by (simp add: prod_eq_iff)
  have run30: "analizza_e_modifica_video mondo_esempio ''video_originale.mp4''
               ''video_modificato.mp4'' (PyInt 30) 80 180 (6 / 5)
             = (None, snd (analizza_e_modifica_video mondo_esempio ''video_originale.mp4''
                             ''video_modificato.mp4'' (PyInt 30) 80 180 (6 / 5)))"
    using esempio_lunghezza [OF f k30, of 80 180] by (simp add: prod_eq_iff)
  have n: "length (v_frames video_esempio) = 4"
    by (simp add: video_esempio_def)
  from frame_interval_quoziente_double [OF cento_leggibile cento_creabile run q]
  have a: "frame_interval (v_fps video_cento) (PyInt 5) = Inr 4 \<and>
      analizzati (snd esecuzione_cento) = map (\<lambda>j. 4 * j) [0..<25]"
    using cento_fps cento_lunghezza by (simp add: campionati_cento)
  from frame_interval_quoziente_double [OF esempio_leggibile esempio_creabile run3 q3]
  have b: "frame_interval (v_fps video_esempio) (PyInt 3) = Inr 6 \<and>
      analizzati (snd (analizza_e_modifica_video mondo_esempio ''video_originale.mp4''
                      ''video_modificato.mp4'' (PyInt 3) 80 180 (6 / 5))) = [0]"
    by (simp add: parti_intere n campionati_quattro)
  from frame_interval_quoziente_double [OF esempio_leggibile esempio_creabile run30 q30]
  have c: "frame_interval (v_fps video_esempio) (PyInt 30) = Inr 1 \<and>
      analizzati (snd (analizza_e_modifica_video mondo_esempio ''video_originale.mp4''
                      ''video_modificato.mp4'' (PyInt 30) 80 180 (6 / 5))) = [0, 1, 2, 3]"
    by (simp add: parti_intere n campionati_quattro)
  from a b c show ?thesis
    using cento_leggibile cento_creabile esecuzione_cento_completa q q3 q30 cento_lunghezza
    by (simp only: simp_thms)
qed

text \<open>
  C6 as stated fails where the double division rounds. With \<open>fps = 10.0\<close> and
  \<open>fps_analisi = 0.2\<close>, the double read from \<open>0.2\<close> is a little above one fifth, the exact
  quotient of the two doubles is a little below 50 and its floor is 49, but the division
  rounds to \<open>50.0\<close> and the interval is 50. With \<open>29.97\<close> and \<open>0.333\<close>, whose decimal
  quotient is exactly 90, the division gives a double below 90 and the interval is 89. And
  with \<open>fps_analisi = 0\<close> there is no interval: line 46 raises.
\<close>

theorem frame_interval_controesempio:
  "frame_interval (Finite 10) (PyFloat (Finite double_0_2)) = Inr 50 \<and>
   max 1 \<lfloor>10 / double_0_2\<rfloor> = (49::int) \<and>
   frame_interval (Finite double_29_97) (PyFloat (Finite double_0_333)) = Inr 89 \<and>
   max 1 \<lfloor>(2997 / 100) / (333 / 1000 :: rat)\<rfloor> = (90::int) \<and>
   frame_interval (Finite 20) (PyInt 0) = Inl ZeroDivisionError"
proof -
  have "max 1 \<lfloor>10 / double_0_2\<rfloor> = (49::int)"
    by code_simp
  moreover have "max 1 \<lfloor>(2997 / 100) / (333 / 1000 :: rat)\<rfloor> = (90::int)"
    by simp
  moreover have "frame_interval (Finite double_29_97) (PyFloat (Finite double_0_333)) = Inr 89"
    using frame_interval_quoziente [OF quozienti(4)] by (simp add: parti_intere)
  moreover have "frame_interval (Finite 10) (PyFloat (Finite double_0_2)) = Inr 50"
    using frame_interval_quoziente [OF quozienti(3)] by simp
  ultimately show ?thesis
    by (simp add: frame_interval_zero)
qed

subsection \<open>Sampled frames between and on the thresholds\<close>

text \<open>
  C8. In any run, a sampled frame whose mean luminance lies strictly between
  \<open>soglia_sottoesposizione\<close> and \<open>soglia_sovraesposizione\<close> is written as it was read.
\<close>

theorem frame_ben_esposto_invariato:
  assumes "analizza_e_modifica_video w inp outp fps_analisi u ov f = (r, s)"
    and "readable w inp = Some vid"
    and "frame_interval (v_fps vid) fps_analisi = Inr k"
    and "i < length (written s)"
    and "campionato k i"
    and "u < np_mean (map grigio (v_frames vid ! i))"
    and "np_mean (map grigio (v_frames vid ! i)) < ov"
  shows "written s ! i = v_frames vid ! i"
  using scritto_campionato [OF assms(1-5)] assms(6,7) by simp

theorem frame_ben_esposto_invariato_witness:
  "campionato 1 1 \<and> 1 < length (written (snd esecuzione_B)) \<and>
   (80::rat) < np_mean (map grigio (v_frames video_esempio ! 1)) \<and>
   np_mean (map grigio (v_frames video_esempio ! 1)) < (180::rat) \<and>
   written (snd esecuzione_B) ! 1 = v_frames video_esempio ! 1"
proof -
  have run: "analizza_e_modifica_video mondo_esempio ''video_originale.mp4''
               ''video_modificato.mp4'' (PyInt 20) 80 180 (6 / 5) = (fst esecuzione_B, snd esecuzione_B)"
    by (simp add: esecuzione_B_def)
  have len: "1 < length (written (snd esecuzione_B))"
    using esecuzione_B_completa by simp
  have lo: "(80::rat) < np_mean (map grigio (v_frames video_esempio ! 1))"
    and hi: "np_mean (map grigio (v_frames video_esempio ! 1)) < (180::rat)"
    unfolding esempio_luminosita by simp_all
  from frame_ben_esposto_invariato
         [OF run esempio_leggibile esempio_intervallo_B len campionato_uno lo hi]
  show ?thesis using campionato_uno [of 1] len lo hi by (intro conjI) assumption+
qed

text \<open>
  C10, amended. A sampled frame whose mean luminance equals \<open>soglia_sottoesposizione\<close> and
  is not above \<open>soglia_sovraesposizione\<close>, or equals \<open>soglia_sovraesposizione\<close> and is not
  below \<open>soglia_sottoesposizione\<close>, is written as it was read: both tests are strict. This
  covers either equality whenever the lower threshold is not above the upper one.
\<close>

theorem soglia_esatta_invariato:
  assumes "analizza_e_modifica_video w inp outp fps_analisi u ov f = (r, s)"
    and "readable w inp = Some vid"
    and "frame_interval (v_fps vid) fps_analisi = Inr k"
    and "i < length (written s)"
    and "campionato k i"
    and "lum = np_mean (map grigio (v_frames vid ! i))"
    and "(lum = u \<and> lum \<le> ov) \<or> (lum = ov \<and> u \<le> lum)"
  shows "written s ! i = v_frames vid ! i"
  using scritto_campionato [OF assms(1-5)] assms(6,7) by auto

theorem soglia_esatta_invariato_witness:
  "campionato 1 1 \<and>
   1 < length (written (snd (analizza_e_modifica_video mondo_esempio ''video_originale.mp4''
                               ''video_modificato.mp4'' (PyInt 20) 100 180 (6 / 5)))) \<and>
   (100::rat) = np_mean (map grigio (v_frames video_esempio ! 1)) \<and>
   written (snd (analizza_e_modifica_video mondo_esempio ''video_originale.mp4''
                   ''video_modificato.mp4'' (PyInt 20) 100 180 (6 / 5))) ! 1
     = v_frames video_esempio ! 1"
proof -
  let ?run = "analizza_e_modifica_video mondo_esempio ''video_originale.mp4''
                ''video_modificato.mp4'' (PyInt 20) 100 180 (6 / 5)"
  have run: "?run = (fst ?run, snd ?run)" by simp
  have len: "1 < length (written (snd ?run))"
    using esempio_lunghezza [OF _ intervallo_venti, of "6 / 5" 100 180] by simp
  have lum: "(100::rat) = np_mean (map grigio (v_frames video_esempio ! 1))"
    by (simp only: esempio_luminosita)
  have soglie: "((100::rat) = 100 \<and> (100::rat) \<le> 180) \<or> ((100::rat) = 180 \<and> (100::rat) \<le> 100)"
    by simp
  from soglia_esatta_invariato
         [OF run esempio_leggibile esempio_intervallo_B len campionato_uno lum soglie]
  show ?thesis using campionato_uno [of 1] len lum by (intro conjI) assumption+
qed

text \<open>
  C10 as stated fails when the thresholds are crossed, which the function does not check:
  with \<open>soglia_sottoesposizione = 200\<close> and \<open>soglia_sovraesposizione = 100\<close>, the frame of
  luminance 100 sits exactly on the upper threshold, yet \<open>100 < 200\<close> holds in the first test
  of the \<open>if\<close>/\<open>elif\<close> chain and the frame is brightened to 120.
\<close>

theorem soglia_esatta_controesempio:
  "campionato 1 1 \<and> v_frames video_esempio ! 1 = uniforme 2 100 \<and>
   np_mean (map grigio (v_frames video_esempio ! 1)) = 100 \<and>
   written (snd (analizza_e_modifica_video mondo_esempio ''video_originale.mp4''
                   ''video_modificato.mp4'' (PyInt 20) 200 100 (6 / 5))) ! 1 = uniforme 2 120 \<and>
   uniforme 2 (120::8 word) \<noteq> uniforme 2 100"
proof -
  have a: "snd (analizza_frame 200 100 (6 / 5) 1 1 (uniforme 2 100)) = Inr (uniforme 2 120)"
    by (simp add: analizza_frame_uniforme campionato_uno valori_scala)
  have b: "snd (analizza_frame 200 100 (6 / 5) 1 1 (v_frames video_esempio ! 1)) =
      Inr (written (snd (analizza_e_modifica_video mondo_esempio ''video_originale.mp4''
                   ''video_modificato.mp4'' (PyInt 20) 200 100 (6 / 5))) ! 1)"
    by (rule esempio_scritto [OF _ intervallo_venti]) simp_all
  have "written (snd (analizza_e_modifica_video mondo_esempio ''video_originale.mp4''
                   ''video_modificato.mp4'' (PyInt 20) 200 100 (6 / 5))) ! 1 = uniforme 2 120"
    using a b [unfolded esempio_frame] by simp
  moreover have "uniforme 2 (120::8 word) \<noteq> uniforme 2 100"
    by (rule uniforme_diverso) simp_all
  ultimately show ?thesis
    using esempio_frame(2) campionato_uno [of 1] esempio_luminosita(2)
    by (simp only: simp_thms)
qed

subsection \<open>The correction\<close>







end
